theory Spec2Isabelle
  imports Main
begin

section \<open>The user registration and login backend (Backend/server.js)\<close>

text \<open>
  The backend has two request handlers, \<^verbatim>\<open>POST /users\<close> and \<^verbatim>\<open>POST /userlogin\<close>.
  Both are \<^verbatim>\<open>async\<close> functions whose whole body is one \<^verbatim>\<open>try { ... } catch (err) { ... }\<close>.
  A handler is modelled as a function from the request and the state of the user
  collection to the response and the new state of the collection. The body of the
  \<^verbatim>\<open>try\<close> block is a computation that either throws (\<open>Inl\<close>) or produces the response
  (\<open>Inr\<close>); the handler itself adds the \<^verbatim>\<open>catch\<close> branch.
\<close>

subsection \<open>Values\<close>

text \<open>
  A JavaScript \<^verbatim>\<open>Error\<close>: its class and its \<^verbatim>\<open>message\<close>. The handlers read only
  \<^verbatim>\<open>err.message\<close>.
\<close>

datatype error =
    TypeError string
  | ValidationError string
  | MongooseError string
  | MongoServerError string
  | Error string

fun message :: "error \<Rightarrow> string" where
  "message (TypeError m) = m"
| "message (ValidationError m) = m"
| "message (MongooseError m) = m"
| "message (MongoServerError m) = m"
| "message (Error m) = m"

text \<open>
  The parsed JSON body of a request. The handlers read the four properties
  \<^verbatim>\<open>name\<close>, \<^verbatim>\<open>email\<close>, \<^verbatim>\<open>password\<close>, \<^verbatim>\<open>mobileNo\<close>; a property that the body does not
  have reads as \<^verbatim>\<open>undefined\<close>, which is \<open>None\<close> here. Property values are modelled
  as strings. \<^verbatim>\<open>req.body\<close> itself is \<^verbatim>\<open>undefined\<close> when no body was parsed, which is
  the request \<open>None\<close>.
\<close>

record body =
  b_name :: "string option"
  b_email :: "string option"
  b_password :: "string option"
  b_mobileNo :: "string option"

type_synonym request = "body option"

text \<open>A document of the \<^verbatim>\<open>User\<close> model.\<close>

record user =
  name :: "string option"
  email :: "string option"
  password :: "string option"
  mobileNo :: "string option"

text \<open>
  What \<^verbatim>\<open>res.status(n).json(...)\<close> sends: the status and one of the three shapes of
  body that the handlers build, \<^verbatim>\<open>{ message, user }\<close>, \<^verbatim>\<open>{ message }\<close> and \<^verbatim>\<open>{ error }\<close>.
\<close>

datatype json_body =
    MessageUser string user
  | Message string
  | ErrorJson string

record response =
  status :: nat
  json :: json_body

subsection \<open>The User Store (model/user, on mongoose)\<close>

text \<open>
  The collection of persisted user documents, in insertion order, and whether the
  connection that \<^verbatim>\<open>mongoose.connect\<close> opens at startup is usable (server.js only
  logs a failed connection and keeps serving).
\<close>

record store =
  docs :: "user list"
  available :: bool

text \<open>
  Modelled from the spec: the file \<^verbatim>\<open>model/user\<close> that defines the \<^verbatim>\<open>User\<close> model is not
  among the sources. Section 4.1 gives its contract: lookup by email returns the
  user record or nothing. A lookup reads the collection and leaves it as it is; with
  the store unavailable the operation fails (section 7, UnexpectedError).
\<close>

definition findOne :: "string option \<Rightarrow> store \<Rightarrow> (error + user option) \<times> store" where
  "findOne e s =
     (if available s then (Inr (find (\<lambda>u. email u = e) (docs s)), s)
      else (Inl (MongooseError ''Operation users.findOne() buffering timed out''), s))"

text \<open>
  Modelled from the spec: \<^verbatim>\<open>save\<close> of the absent \<^verbatim>\<open>User\<close> model. Sections 3 and 4.1:
  \<^verbatim>\<open>name\<close> and \<^verbatim>\<open>email\<close> are required, \<^verbatim>\<open>email\<close> is unique; creation fails when a
  required field is missing or the email already exists, and otherwise persists the
  record it was given and returns it. Required fields are validated before the
  collection is reached.
\<close>

definition save :: "user \<Rightarrow> store \<Rightarrow> (error + user) \<times> store" where
  "save u s =
     (if name u = None then
        (Inl (ValidationError ''User validation failed: name: Path name is required.''), s)
      else if email u = None then
        (Inl (ValidationError ''User validation failed: email: Path email is required.''), s)
      else if available s = False then
        (Inl (MongooseError ''Operation users.insertOne() buffering timed out''), s)
      else if email u \<in> set (map email (docs s)) then
        (Inl (MongoServerError ''E11000 duplicate key error collection: Lumen.users index: email_1''), s)
      else (Inr u, s\<lparr>docs := docs s @ [u]\<rparr>))"

subsection \<open>The comparison primitive (bcryptjs)\<close>

text \<open>
  \<^verbatim>\<open>bcrypt.compare(s, hash)\<close> of the bcryptjs library, which server.js imports. The
  library rejects with "Illegal arguments" unless both arguments are strings, answers
  \<^verbatim>\<open>false\<close> for a hash that is not 60 characters long, and otherwise hashes \<open>s\<close> with
  the salt held in the first 29 characters of the hash and compares the result with the
  hash. The Blowfish-based hash function itself is the parameter \<open>H\<close>: it takes the
  password and the salt and returns the hash string or an error.
\<close>

type_synonym hasher = "string \<Rightarrow> string \<Rightarrow> error + string"

definition typeof :: "string option \<Rightarrow> string" where
  "typeof v = (case v of None \<Rightarrow> ''undefined'' | Some _ \<Rightarrow> ''string'')"

definition illegal_arguments :: "string option \<Rightarrow> string option \<Rightarrow> error" where
  "illegal_arguments s hash = Error (''Illegal arguments: '' @ typeof s @ '', '' @ typeof hash)"

definition bcrypt_compare :: "hasher \<Rightarrow> string option \<Rightarrow> string option \<Rightarrow> error + bool" where
  "bcrypt_compare H s hash =
     (case s of
        None \<Rightarrow> Inl (illegal_arguments s hash)
      | Some s' \<Rightarrow>
          (case hash of
             None \<Rightarrow> Inl (illegal_arguments s hash)
           | Some h \<Rightarrow>
               if length h \<noteq> 60 then Inr False
               else (case H s' (take 29 h) of
                       Inl err \<Rightarrow> Inl err
                     | Inr computed \<Rightarrow> Inr (computed = h))))"

subsection \<open>POST /users\<close>

text \<open>
  \<^verbatim>\<open>const { name, email, password, mobileNo } = req.body\<close> throws a TypeError when
  \<^verbatim>\<open>req.body\<close> is \<^verbatim>\<open>undefined\<close>.
\<close>

definition destructure :: "string \<Rightarrow> request \<Rightarrow> error + body" where
  "destructure first req =
     (case req of
        None \<Rightarrow> Inl (TypeError (''Cannot destructure property '' @ first @ '' of req.body as it is undefined.''))
      | Some b \<Rightarrow> Inr b)"

text \<open>\<^verbatim>\<open>new User({ name, email, password, mobileNo })\<close>: the document handed to \<^verbatim>\<open>save\<close>.\<close>

definition new_User :: "body \<Rightarrow> user" where
  "new_User b =
     \<lparr>name = b_name b, email = b_email b, password = b_password b, mobileNo = b_mobileNo b\<rparr>"

text \<open>The \<^verbatim>\<open>try\<close> block of the handler (server.js lines 38 to 41).\<close>

definition register_try :: "request \<Rightarrow> store \<Rightarrow> (error + response) \<times> store" where
  "register_try req s =
     (case destructure ''name'' req of
        Inl err \<Rightarrow> (Inl err, s)
      | Inr b \<Rightarrow>
          (case save (new_User b) s of
             (Inl err, s') \<Rightarrow> (Inl err, s')
           | (Inr user, s') \<Rightarrow>
               (Inr \<lparr>status = 201, json = MessageUser ''User created successfully'' user\<rparr>, s')))"

text \<open>The handler: the \<^verbatim>\<open>try\<close> block, and \<^verbatim>\<open>catch\<close> answering 400 with \<^verbatim>\<open>err.message\<close>.\<close>

definition register :: "request \<Rightarrow> store \<Rightarrow> response \<times> store" where
  "register req s =
     (case register_try req s of
        (Inl err, s') \<Rightarrow> (\<lparr>status = 400, json = ErrorJson (message err)\<rparr>, s')
      | (Inr res, s') \<Rightarrow> (res, s'))"

subsection \<open>POST /userlogin\<close>

text \<open>The \<^verbatim>\<open>try\<close> block of the handler (server.js lines 49 to 64).\<close>

definition userlogin_try :: "hasher \<Rightarrow> request \<Rightarrow> store \<Rightarrow> (error + response) \<times> store" where
  "userlogin_try H req s =
     (case destructure ''email'' req of
        Inl err \<Rightarrow> (Inl err, s)
      | Inr b \<Rightarrow>
          (case findOne (b_email b) s of
             (Inl err, s') \<Rightarrow> (Inl err, s')
           | (Inr None, s') \<Rightarrow>
               (Inr \<lparr>status = 400, json = Message ''User not found''\<rparr>, s')
           | (Inr (Some user), s') \<Rightarrow>
               (case bcrypt_compare H (b_password b) (password user) of
                  Inl err \<Rightarrow> (Inl err, s')
                | Inr isMatch \<Rightarrow>
                    if isMatch = False then
                      (Inr \<lparr>status = 400, json = Message ''Invalid credentials''\<rparr>, s')
                    else
                      (Inr \<lparr>status = 200, json = MessageUser ''Logged in successfully'' user\<rparr>, s'))))"

text \<open>The handler: the \<^verbatim>\<open>try\<close> block, and \<^verbatim>\<open>catch\<close> answering 500 with \<^verbatim>\<open>err.message\<close>.\<close>

definition userlogin :: "hasher \<Rightarrow> request \<Rightarrow> store \<Rightarrow> response \<times> store" where
  "userlogin H req s =
     (case userlogin_try H req s of
        (Inl err, s') \<Rightarrow> (\<lparr>status = 500, json = ErrorJson (message err)\<rparr>, s')
      | (Inr res, s') \<Rightarrow> (res, s'))"

subsection \<open>Sample requests and stores\<close>

text \<open>
  The scenario of the specification's section 8: the registration
  \<^verbatim>\<open>{name:"A", email:"a@x.com", password:"secret1", mobileNo:"555"}\<close>, the document it
  creates, login bodies \<^verbatim>\<open>{email, password}\<close>, and the collection before and after the
  registration. They serve as concrete inputs below.
\<close>

definition body_A :: body where
  "body_A =
     \<lparr>b_name = Some ''A'', b_email = Some ''a@x.com'',
      b_password = Some ''secret1'', b_mobileNo = Some ''555''\<rparr>"

definition user_A :: user where
  "user_A =
     \<lparr>name = Some ''A'', email = Some ''a@x.com'',
      password = Some ''secret1'', mobileNo = Some ''555''\<rparr>"

definition login_body :: "string \<Rightarrow> string option \<Rightarrow> body" where
  "login_body e p = \<lparr>b_name = None, b_email = Some e, b_password = p, b_mobileNo = None\<rparr>"

definition store_empty :: store where
  "store_empty = \<lparr>docs = [], available = True\<rparr>"

definition store_A :: store where
  "store_A = \<lparr>docs = [user_A], available = True\<rparr>"

definition store_down :: store where
  "store_down = \<lparr>docs = [user_A], available = False\<rparr>"

text \<open>A hash function that always fails; the concrete inputs below never reach it.\<close>

definition failing_hasher :: hasher where
  "failing_hasher s salt = Inl (Error ''Invalid salt version'')"

lemmas sample_defs =
  body_A_def user_A_def login_body_def store_empty_def store_A_def store_down_def

section \<open>The store operations\<close>

lemma findOne_snd: "snd (findOne e s) = s"
  by (simp add: findOne_def)

text \<open>
  A lookup answers "no record" exactly when the store is available and no persisted
  document has the email; a record it returns is a persisted one with that email.
\<close>

lemma findOne_none_iff:
  "fst (findOne e s) = Inr None \<longleftrightarrow> available s \<and> e \<notin> set (map email (docs s))"
  by (auto simp add: findOne_def find_None_iff)

lemma findOne_found:
  assumes "fst (findOne e s) = Inr (Some u)"
  shows "available s \<and> u \<in> set (docs s) \<and> email u = e"
  using assms by (auto simp add: findOne_def find_Some_iff split: if_splits)

lemma find_after_append:
  assumes "e \<notin> set (map email xs)"
  shows "find (\<lambda>d. email d = e) (xs @ [u]) = (if email u = e then Some u else None)"
  using assms by (induction xs) auto

lemma save_duplicate:
  assumes "email u \<in> set (map email (docs s))"
  shows "\<exists>err. save u s = (Inl err, s)"
  using assms by (simp add: save_def)

lemma save_ok:
  assumes "fst (save u s) = Inr u'"
  shows "save u s = (Inr u, s\<lparr>docs := docs s @ [u]\<rparr>) \<and> u' = u"
  using assms by (auto simp add: save_def split: if_splits)

section \<open>The branches of the two handlers\<close>

lemma register_save_error:
  assumes "save (new_User b) s = (Inl err, s')"
  shows "register (Some b) s = (\<lparr>status = 400, json = ErrorJson (message err)\<rparr>, s')"
  using assms by (simp add: register_def register_try_def destructure_def)

lemma register_save_ok:
  assumes "save (new_User b) s = (Inr u, s')"
  shows "register (Some b) s =
     (\<lparr>status = 201, json = MessageUser ''User created successfully'' u\<rparr>, s')"
  using assms by (simp add: register_def register_try_def destructure_def)

lemma login_no_body:
  "userlogin H None s =
     (\<lparr>status = 500,
       json = ErrorJson ''Cannot destructure property email of req.body as it is undefined.''\<rparr>, s)"
  by (simp add: userlogin_def userlogin_try_def destructure_def)

lemma login_lookup_error:
  assumes "fst (findOne (b_email b) s) = Inl err"
  shows "userlogin H (Some b) s = (\<lparr>status = 500, json = ErrorJson (message err)\<rparr>, s)"
  using assms findOne_snd [of "b_email b" s]
  by (cases "findOne (b_email b) s") (simp add: userlogin_def userlogin_try_def destructure_def)

lemma login_lookup_none:
  assumes "fst (findOne (b_email b) s) = Inr None"
  shows "userlogin H (Some b) s = (\<lparr>status = 400, json = Message ''User not found''\<rparr>, s)"
  using assms findOne_snd [of "b_email b" s]
  by (cases "findOne (b_email b) s") (simp add: userlogin_def userlogin_try_def destructure_def)

lemma login_compare:
  assumes "fst (findOne (b_email b) s) = Inr (Some u)"
  shows "userlogin H (Some b) s =
     (case bcrypt_compare H (b_password b) (password u) of
        Inl err \<Rightarrow> (\<lparr>status = 500, json = ErrorJson (message err)\<rparr>, s)
      | Inr isMatch \<Rightarrow>
          if isMatch then (\<lparr>status = 200, json = MessageUser ''Logged in successfully'' u\<rparr>, s)
          else (\<lparr>status = 400, json = Message ''Invalid credentials''\<rparr>, s))"
  using assms findOne_snd [of "b_email b" s]
  by (cases "findOne (b_email b) s")
     (simp add: userlogin_def userlogin_try_def destructure_def split: sum.splits)

section \<open>Registration followed by login\<close>

text \<open>
  After a registration that the store accepted, a lookup by the same email returns the
  record just created.
\<close>

lemma register_then_findOne:
  assumes "fst (save (new_User b) s) = Inr u"
  shows "fst (findOne (b_email b) (snd (register (Some b) s))) = Inr (Some u)"
proof -
  from save_ok [OF assms] have sv: "save (new_User b) s = (Inr u, s\<lparr>docs := docs s @ [u]\<rparr>)"
    and u: "u = new_User b" by simp_all
  from assms have fresh: "email u \<notin> set (map email (docs s))" and av: "available s"
    by (auto simp add: save_def u split: if_splits)
  have "email u = b_email b" by (simp add: u new_User_def)
  with fresh av show ?thesis
    by (simp add: register_save_ok [OF sv] findOne_def find_after_append)
qed

text \<open>
  The record holds the password as the request gave it. Unless that string happens to
  be 60 characters long, the comparison of the login answers \<^verbatim>\<open>false\<close>, for every
  hash function.
\<close>

lemma roundtrip_rejected:
  assumes "fst (save (new_User b) s) = Inr u"
    and "b_password b = Some p" and "length p \<noteq> 60"
  shows "fst (userlogin H (Some b) (snd (register (Some b) s))) =
     \<lparr>status = 400, json = Message ''Invalid credentials''\<rparr>"
proof -
  from save_ok [OF assms(1)] have "password u = Some p"
    by (simp add: new_User_def assms(2))
  with assms(2,3) have "bcrypt_compare H (b_password b) (password u) = Inr False"
    by (simp add: bcrypt_compare_def)
  then show ?thesis
    by (simp add: login_compare [OF register_then_findOne [OF assms(1)]])
qed

section \<open>Registration\<close>

text \<open>
  C1. The register operation is to hash the plaintext password before it persists the
  record: the value passed to the store is to be the hash, not the plaintext. The
  handler does otherwise. For every body \<open>b\<close> the document it hands to \<^verbatim>\<open>save\<close> is
  \<open>new_User b\<close>, whose password field is the \<^verbatim>\<open>password\<close> property of the request as
  it came; no hash function takes part in \<open>register\<close>.
\<close>

theorem register_hands_plaintext_to_save:
  "fst (register_try (Some b) s) =
     (case fst (save (new_User b) s) of
        Inl err \<Rightarrow> Inl err
      | Inr user \<Rightarrow> Inr \<lparr>status = 201, json = MessageUser ''User created successfully'' user\<rparr>)
   \<and> password (new_User b) = b_password b"
  by (cases "save (new_User b) s")
     (simp add: register_try_def destructure_def new_User_def split: sum.splits)

text \<open>
  C3. The stored password field of a record persisted by the register operation is
  never to equal the plaintext of the request. On the sample registration into the
  empty collection the handler answers 201 and the one stored document carries the
  password \<^verbatim>\<open>secret1\<close>, the plaintext of the request.
\<close>

theorem register_stores_plaintext:
  "status (fst (register (Some body_A) store_empty)) = 201
   \<and> map password (docs (snd (register (Some body_A) store_empty))) = [Some ''secret1'']
   \<and> b_password body_A = Some ''secret1''"
  by (simp add: register_def register_try_def destructure_def save_def new_User_def sample_defs)

text \<open>
  C7. A registration whose email is the email of a record already persisted fails with
  status 400 and a body that carries the message of the store's error; the collection
  stays as it was, so the duplicate is not stored.
\<close>

theorem register_duplicate_email_rejected:
  assumes "b_email b \<in> set (map email (docs s))"
  shows "\<exists>err. fst (save (new_User b) s) = Inl err
     \<and> register (Some b) s = (\<lparr>status = 400, json = ErrorJson (message err)\<rparr>, s)"
proof -
  from assms have "email (new_User b) \<in> set (map email (docs s))"
    by (simp add: new_User_def)
  then obtain err where "save (new_User b) s = (Inl err, s)"
    using save_duplicate by blast
  then show ?thesis
    using register_save_error by fastforce
qed

theorem register_duplicate_email_rejected_witness:
  "b_email body_A \<in> set (map email (docs store_A))
   \<and> register (Some body_A) store_A =
       (\<lparr>status = 400,
         json = ErrorJson ''E11000 duplicate key error collection: Lumen.users index: email_1''\<rparr>,
        store_A)"
proof -
  have dup: "b_email body_A \<in> set (map email (docs store_A))"
    by (simp add: sample_defs)
  have "fst (save (new_User body_A) store_A) =
      Inl (MongoServerError ''E11000 duplicate key error collection: Lumen.users index: email_1'')"
    by (simp add: save_def new_User_def sample_defs)
  with register_duplicate_email_rejected [OF dup] have
    "register (Some body_A) store_A =
       (\<lparr>status = 400,
         json = ErrorJson ''E11000 duplicate key error collection: Lumen.users index: email_1''\<rparr>,
        store_A)"
    by auto
  with dup show ?thesis by simp
qed

text \<open>
  C8. A registration that the store accepts is answered with status 201 and the body
  \<^verbatim>\<open>{ message, user }\<close>, where \<^verbatim>\<open>user\<close> is the created record whole: it is the very
  document appended to the collection, password field included.
\<close>

theorem register_accepted_returns_record:
  assumes "fst (save (new_User b) s) = Inr u"
  shows "fst (register (Some b) s) =
       \<lparr>status = 201, json = MessageUser ''User created successfully'' u\<rparr>
     \<and> docs (snd (register (Some b) s)) = docs s @ [u]
     \<and> password u = password (last (docs (snd (register (Some b) s))))"
  using save_ok [OF assms] by (simp add: register_save_ok)

theorem register_accepted_returns_record_witness:
  "fst (save (new_User body_A) store_empty) = Inr user_A
   \<and> fst (register (Some body_A) store_empty) =
       \<lparr>status = 201, json = MessageUser ''User created successfully'' user_A\<rparr>
   \<and> docs (snd (register (Some body_A) store_empty)) = [user_A]
   \<and> password user_A = Some ''secret1''"
proof -
  have ok: "fst (save (new_User body_A) store_empty) = Inr user_A"
    by (simp add: save_def new_User_def sample_defs)
  have "docs store_empty = []" and "password user_A = Some ''secret1''"
    by (simp_all add: sample_defs)
  with ok register_accepted_returns_record [OF ok] show ?thesis by simp
qed

section \<open>Login\<close>

text \<open>
  C2. Round trip: after a registration that succeeded with 201, a login with the same
  email and the same plaintext password is to succeed with 200 and return the record.
  On the sample scenario the registration succeeds and the login that follows is
  answered 400 "Invalid credentials", whatever the hash function: the stored password
  is the seven characters of the plaintext, and \<^verbatim>\<open>bcrypt.compare\<close> answers \<^verbatim>\<open>false\<close> for
  a hash that is not 60 characters long.
\<close>

theorem login_after_register_rejected:
  "fst (register (Some body_A) store_empty) =
     \<lparr>status = 201, json = MessageUser ''User created successfully'' user_A\<rparr>
   \<and> fst (userlogin H (Some (login_body ''a@x.com'' (Some ''secret1'')))
           (snd (register (Some body_A) store_empty))) =
     \<lparr>status = 400, json = Message ''Invalid credentials''\<rparr>"
  by (simp add: userlogin_def userlogin_try_def findOne_def bcrypt_compare_def
      register_def register_try_def destructure_def save_def new_User_def sample_defs)

text \<open>
  C4. A login whose email matches no persisted record fails with status 400 and the
  message "User not found". The hypothesis is that the lookup returns no record, which
  by \<open>findOne_none_iff\<close> says that the store is available and no persisted document
  has the email of the request.
\<close>

theorem login_unknown_email:
  assumes "fst (findOne (b_email b) s) = Inr None"
  shows "fst (userlogin H (Some b) s) = \<lparr>status = 400, json = Message ''User not found''\<rparr>"
  by (simp add: login_lookup_none [OF assms])

theorem login_unknown_email_witness:
  "fst (findOne (b_email (login_body ''nobody@x.com'' (Some ''x''))) store_A) = Inr None
   \<and> fst (userlogin failing_hasher (Some (login_body ''nobody@x.com'' (Some ''x''))) store_A) =
       \<lparr>status = 400, json = Message ''User not found''\<rparr>"
proof -
  have h: "fst (findOne (b_email (login_body ''nobody@x.com'' (Some ''x''))) store_A) = Inr None"
    by (simp add: findOne_def sample_defs)
  from h login_unknown_email [OF h] show ?thesis by blast
qed

text \<open>
  C5. A login whose email matches a persisted record, and whose password the
  comparison primitive finds not to match the stored value, fails with status 400 and
  the message "Invalid credentials".
\<close>

theorem login_wrong_password:
  assumes "fst (findOne (b_email b) s) = Inr (Some u)"
    and "bcrypt_compare H (b_password b) (password u) = Inr False"
  shows "fst (userlogin H (Some b) s) =
     \<lparr>status = 400, json = Message ''Invalid credentials''\<rparr>"
  by (simp add: login_compare [OF assms(1)] assms(2))

theorem login_wrong_password_witness:
  "fst (findOne (b_email (login_body ''a@x.com'' (Some ''wrong''))) store_A) = Inr (Some user_A)
   \<and> bcrypt_compare failing_hasher
        (b_password (login_body ''a@x.com'' (Some ''wrong''))) (password user_A) = Inr False
   \<and> fst (userlogin failing_hasher (Some (login_body ''a@x.com'' (Some ''wrong''))) store_A) =
       \<lparr>status = 400, json = Message ''Invalid credentials''\<rparr>"
proof -
  have h1: "fst (findOne (b_email (login_body ''a@x.com'' (Some ''wrong''))) store_A)
      = Inr (Some user_A)"
    by (simp add: findOne_def sample_defs)
  have h2: "bcrypt_compare failing_hasher
      (b_password (login_body ''a@x.com'' (Some ''wrong''))) (password user_A) = Inr False"
    by (simp add: bcrypt_compare_def sample_defs)
  from h1 h2 login_wrong_password [OF h1 h2] show ?thesis by blast
qed

text \<open>
  C6. The two credential failures of a login, no account for the email and a password
  that does not match, are both answered with status 400 and a body \<^verbatim>\<open>{ message }\<close>,
  and differ in the message only. Whatever is thrown inside the handler (no parsed
  body, a failing lookup, a failing comparison) is answered with status 500 and the
  body \<^verbatim>\<open>{ error }\<close>.
\<close>

theorem login_failure_statuses:
  "(req = None \<longrightarrow> status (fst (userlogin H req s)) = 500)
   \<and> (fst (findOne (b_email b) s) = Inl err \<longrightarrow>
        fst (userlogin H (Some b) s) = \<lparr>status = 500, json = ErrorJson (message err)\<rparr>)
   \<and> (fst (findOne (b_email b) s) = Inr None \<longrightarrow>
        fst (userlogin H (Some b) s) = \<lparr>status = 400, json = Message ''User not found''\<rparr>)
   \<and> (fst (findOne (b_email b) s) = Inr (Some u)
        \<and> bcrypt_compare H (b_password b) (password u) = Inl err \<longrightarrow>
        fst (userlogin H (Some b) s) = \<lparr>status = 500, json = ErrorJson (message err)\<rparr>)
   \<and> (fst (findOne (b_email b) s) = Inr (Some u)
        \<and> bcrypt_compare H (b_password b) (password u) = Inr False \<longrightarrow>
        fst (userlogin H (Some b) s) = \<lparr>status = 400, json = Message ''Invalid credentials''\<rparr>)
   \<and> ''User not found'' \<noteq> ''Invalid credentials''"
  by (simp add: login_no_body login_lookup_error login_lookup_none login_compare)

theorem login_failure_statuses_witness:
  "status (fst (userlogin failing_hasher None store_A)) = 500
   \<and> fst (userlogin failing_hasher (Some (login_body ''a@x.com'' (Some ''secret1''))) store_down) =
       \<lparr>status = 500, json = ErrorJson ''Operation users.findOne() buffering timed out''\<rparr>
   \<and> fst (userlogin failing_hasher (Some (login_body ''nobody@x.com'' (Some ''x''))) store_A) =
       \<lparr>status = 400, json = Message ''User not found''\<rparr>
   \<and> fst (userlogin failing_hasher (Some (login_body ''a@x.com'' None)) store_A) =
       \<lparr>status = 500, json = ErrorJson ''Illegal arguments: undefined, string''\<rparr>
   \<and> fst (userlogin failing_hasher (Some (login_body ''a@x.com'' (Some ''wrong''))) store_A) =
       \<lparr>status = 400, json = Message ''Invalid credentials''\<rparr>"
proof -
  have down: "fst (findOne (b_email (login_body ''a@x.com'' (Some ''secret1''))) store_down) =
      Inl (MongooseError ''Operation users.findOne() buffering timed out'')"
    by (simp add: findOne_def sample_defs)
  have none: "fst (findOne (b_email (login_body ''nobody@x.com'' (Some ''x''))) store_A) = Inr None"
    by (simp add: findOne_def sample_defs)
  have found: "fst (findOne (b_email (login_body ''a@x.com'' p)) store_A) = Inr (Some user_A)" for p
    by (simp add: findOne_def sample_defs)
  have illegal: "bcrypt_compare failing_hasher
      (b_password (login_body ''a@x.com'' None)) (password user_A) =
      Inl (Error ''Illegal arguments: undefined, string'')"
    by (simp add: bcrypt_compare_def illegal_arguments_def typeof_def sample_defs)
  have wrong: "bcrypt_compare failing_hasher
      (b_password (login_body ''a@x.com'' (Some ''wrong''))) (password user_A) = Inr False"
    by (simp add: bcrypt_compare_def sample_defs)
  have c1: "status (fst (userlogin failing_hasher None store_A)) = 500"
    using login_failure_statuses [of None failing_hasher store_A] by simp
  have c2: "fst (userlogin failing_hasher (Some (login_body ''a@x.com'' (Some ''secret1''))) store_down) =
       \<lparr>status = 500, json = ErrorJson ''Operation users.findOne() buffering timed out''\<rparr>"
    using down login_failure_statuses
      [of _ failing_hasher store_down "login_body ''a@x.com'' (Some ''secret1'')"
          "MongooseError ''Operation users.findOne() buffering timed out''"]
    by simp
  have c3: "fst (userlogin failing_hasher (Some (login_body ''nobody@x.com'' (Some ''x''))) store_A) =
       \<lparr>status = 400, json = Message ''User not found''\<rparr>"
    using none login_failure_statuses
      [of _ failing_hasher store_A "login_body ''nobody@x.com'' (Some ''x'')"]
    by simp
  have c4: "fst (userlogin failing_hasher (Some (login_body ''a@x.com'' None)) store_A) =
       \<lparr>status = 500, json = ErrorJson ''Illegal arguments: undefined, string''\<rparr>"
    using found illegal login_failure_statuses
      [of _ failing_hasher store_A "login_body ''a@x.com'' None"
          "Error ''Illegal arguments: undefined, string''" user_A]
    by simp
  have c5: "fst (userlogin failing_hasher (Some (login_body ''a@x.com'' (Some ''wrong''))) store_A) =
       \<lparr>status = 400, json = Message ''Invalid credentials''\<rparr>"
    using found wrong login_failure_statuses
      [of _ failing_hasher store_A "login_body ''a@x.com'' (Some ''wrong'')" _ user_A]
    by simp
  from c1 c2 c3 c4 c5 show ?thesis by blast
qed

text \<open>
  C9. Login is read-only: whatever the request, the hash function and the outcome
  (thrown error, not found, mismatch, success), the collection after the handler is the
  collection before it.
\<close>

theorem login_read_only: "snd (userlogin H req s) = s"
proof (cases req)
  case None
  then show ?thesis by (simp add: login_no_body)
next
  case (Some b)
  show ?thesis
  proof (cases "fst (findOne (b_email b) s)")
    case (Inl err)
    then show ?thesis by (simp add: Some login_lookup_error)
  next
    case (Inr found)
    then show ?thesis
      by (cases found)
         (simp_all add: Some login_lookup_none login_compare split: sum.splits)
  qed
qed

text \<open>
  C10. When the email of a login matches no persisted record, the response and the
  resulting collection are the same for every supplied password, and for every hash
  function: the comparison is not reached. The response is 400 "User not found".
\<close>

theorem login_unknown_email_ignores_password:
  assumes "fst (findOne (b_email b) s) = Inr None"
  shows "userlogin H1 (Some (b\<lparr>b_password := p1\<rparr>)) s =
         userlogin H2 (Some (b\<lparr>b_password := p2\<rparr>)) s
     \<and> fst (userlogin H1 (Some (b\<lparr>b_password := p1\<rparr>)) s) =
         \<lparr>status = 400, json = Message ''User not found''\<rparr>"
  using assms by (simp add: login_lookup_none)

theorem login_unknown_email_ignores_password_witness:
  "fst (findOne (b_email (login_body ''nobody@x.com'' None)) store_A) = Inr None
   \<and> userlogin failing_hasher (Some (login_body ''nobody@x.com'' (Some ''secret1''))) store_A =
       userlogin (\<lambda>s salt. Inr (salt @ s)) (Some (login_body ''nobody@x.com'' None)) store_A
   \<and> fst (userlogin failing_hasher (Some (login_body ''nobody@x.com'' (Some ''secret1''))) store_A) =
       \<lparr>status = 400, json = Message ''User not found''\<rparr>"
proof -
  have h: "fst (findOne (b_email (login_body ''nobody@x.com'' None)) store_A) = Inr None"
    by (simp add: findOne_def sample_defs)
  have upd: "(login_body ''nobody@x.com'' None)\<lparr>b_password := p\<rparr> = login_body ''nobody@x.com'' p" for p
    by (simp add: login_body_def)
  have "userlogin failing_hasher (Some (login_body ''nobody@x.com'' (Some ''secret1''))) store_A =
       userlogin (\<lambda>s salt. Inr (salt @ s)) (Some (login_body ''nobody@x.com'' None)) store_A
     \<and> fst (userlogin failing_hasher (Some (login_body ''nobody@x.com'' (Some ''secret1''))) store_A) =
       \<lparr>status = 400, json = Message ''User not found''\<rparr>"
    using login_unknown_email_ignores_password
      [OF h, of failing_hasher "Some ''secret1''" "\<lambda>s salt. Inr (salt @ s)" None]
    unfolding upd .
  with h show ?thesis by blast
qed

end
